theory Spec2Isabelle
  imports Main
begin

section \<open>The execution console of \<^verbatim>\<open>src/App.tsx\<close>\<close>

text \<open>
  The component \<^verbatim>\<open>App\<close> keeps six state variables, starts the Pyodide runtime once
  when it mounts, and has two handlers: \<^verbatim>\<open>handleRunCode\<close> and
  \<^verbatim>\<open>handleLanguageChange\<close>. The handlers and the bootstrap are embedded below as
  functions on a record of everything they read or write: the six state variables, the
  global \<^verbatim>\<open>console.log\<close> property, the arrays that the capturing closures hold, and
  a journal that lists, in program order, every setter call and every call that
  executes source text.

  Text is a \<^typ>\<open>string\<close>; a character stands for one code unit below 256.
\<close>

subsection \<open>Values of the host language\<close>

text \<open>
  The values that user code hands to the component: arguments of \<^verbatim>\<open>console.log\<close>,
  the value a run returns, and the value it throws. The component does four things
  with such a value: it formats it as an argument of \<^verbatim>\<open>console.log\<close> (lines 44 to
  48), it converts it to text in a concatenation or a template literal (lines 61, 88, 91
  and 96), it tests \<^verbatim>\<open>instanceof Error\<close> (line 95) and it reads the property
  \<^verbatim>\<open>message\<close> (lines 91 and 96). A value is represented by what these give.

  A number is given by the text of its conversion to a string. The values whose
  \<^verbatim>\<open>typeof\<close> is \<^verbatim>\<open>"object"\<close> are: \<^verbatim>\<open>null\<close>; an instance of \<^verbatim>\<open>Error\<close>, with its name
  and the value of its \<^verbatim>\<open>message\<close>, or with a \<^verbatim>\<open>message\<close> getter that throws the given
  value; any other object, with the text of \<^verbatim>\<open>JSON.stringify(o, null, 2)\<close>, the value
  of its \<^verbatim>\<open>message\<close> (\<^verbatim>\<open>undefined\<close> when it has none) and the text of its conversion to
  a string, or the value that this conversion throws (an object without
  \<^verbatim>\<open>toString\<close>, or with one that throws).
\<close>

datatype js_value =
    Undefined
  | Boolean bool
  | Number string
  | Str string
  | Symbol string
  | Function string
  | Object js_object
and js_object =
    Null
  | Error string js_value
  | Error_getter string js_value
  | Plain string js_value string
  | Plain_throwing string js_value js_value

text \<open>The \<^verbatim>\<open>TypeError\<close>s of the engine, with the messages of V8.\<close>

definition TypeError :: "string \<Rightarrow> js_value" where
  "TypeError message = Object (Error ''TypeError'' (Str message))"

definition symbol_to_string :: js_value where
  "symbol_to_string = TypeError ''Cannot convert a Symbol value to a string''"

text \<open>\<^verbatim>\<open>Error.prototype.toString\<close>: the name, a colon and the message, or the one of them
  that is not empty.\<close>

definition Error_toString :: "string \<Rightarrow> string \<Rightarrow> string" where
  "Error_toString name msg =
     (if name = [] then msg else if msg = [] then name else name @ '': '' @ msg)"

text \<open>
  The conversion to a string that a concatenation with a string (line 61) and a template
  literal (lines 88, 91 and 96) apply: the text, or the value thrown. A Symbol throws a
  \<^verbatim>\<open>TypeError\<close>; an \<^verbatim>\<open>Error\<close> converts its message, unless that is \<^verbatim>\<open>undefined\<close>.
\<close>

fun ToString :: "js_value \<Rightarrow> js_value + string" where
  "ToString Undefined = Inr ''undefined''"
| "ToString (Boolean b) = Inr (if b then ''true'' else ''false'')"
| "ToString (Number text) = Inr text"
| "ToString (Str s) = Inr s"
| "ToString (Symbol description) = Inl symbol_to_string"
| "ToString (Function src) = Inr src"
| "ToString (Object Null) = Inr ''null''"
| "ToString (Object (Error name message)) =
     (if message = Undefined then Inr (Error_toString name [])
      else case ToString message of
             Inl thrown \<Rightarrow> Inl thrown
           | Inr msg \<Rightarrow> Inr (Error_toString name msg))"
| "ToString (Object (Error_getter name thrown)) = Inl thrown"
| "ToString (Object (Plain json message text)) = Inr text"
| "ToString (Object (Plain_throwing json message thrown)) = Inl thrown"

text \<open>\<^verbatim>\<open>v instanceof Error\<close>.\<close>

fun instanceof_Error :: "js_value \<Rightarrow> bool" where
  "instanceof_Error (Object (Error name message)) = True"
| "instanceof_Error (Object (Error_getter name thrown)) = True"
| "instanceof_Error v = False"

text \<open>\<^verbatim>\<open>v.message\<close>: the value read, or the value thrown. Reading a property of
  \<^verbatim>\<open>undefined\<close> or \<^verbatim>\<open>null\<close> throws a \<^verbatim>\<open>TypeError\<close>; the other values that are not
  objects have no such property.\<close>

fun message_of :: "js_value \<Rightarrow> js_value + js_value" where
  "message_of Undefined =
     Inl (TypeError ''Cannot read properties of undefined (reading 'message')'')"
| "message_of (Object Null) =
     Inl (TypeError ''Cannot read properties of null (reading 'message')'')"
| "message_of (Object (Error name message)) = Inr message"
| "message_of (Object (Error_getter name thrown)) = Inl thrown"
| "message_of (Object (Plain json message text)) = Inr message"
| "message_of (Object (Plain_throwing json message thrown)) = Inr message"
| "message_of v = Inr Undefined"

text \<open>The template literal \<^verbatim>\<open>`Error: ${error.message}`\<close> of lines 91 and 96, without its
  first seven characters: the property is read, then converted.\<close>

definition message_text :: "js_value \<Rightarrow> js_value + string" where
  "message_text error =
     (case message_of error of
        Inl thrown \<Rightarrow> Inl thrown
      | Inr message \<Rightarrow> ToString message)"

text \<open>
  The expression \<^verbatim>\<open>(result !== undefined ? "\n=> " + result : "")\<close> of line 61, which
  line 88 has with a template literal.
\<close>

definition shown_result :: "js_value \<Rightarrow> js_value + string" where
  "shown_result result =
     (if result \<noteq> Undefined then
        (case ToString result of
           Inl thrown \<Rightarrow> Inl thrown
         | Inr text \<Rightarrow> Inr (''\<newline>=> '' @ text))
      else Inr [])"

text \<open>\<^verbatim>\<open>xs.join(sep)\<close> on an array of strings.\<close>

fun join :: "string \<Rightarrow> string list \<Rightarrow> string" where
  "join sep [] = []"
| "join sep [x] = x"
| "join sep (x # y # ys) = x @ sep @ join sep (y # ys)"

text \<open>
  Lines 44 to 48, \<^verbatim>\<open>typeof arg === "object" ? JSON.stringify(arg, null, 2) : String(arg)\<close>:
  the objects give their JSON text (\<^verbatim>\<open>null\<close> for \<^verbatim>\<open>null\<close>, \<^verbatim>\<open>{}\<close> for an \<^verbatim>\<open>Error\<close>,
  which has no enumerable property of its own), the other values the text of
  \<^verbatim>\<open>String\<close>, which for a Symbol is its description in \<^verbatim>\<open>Symbol(...)\<close>.
\<close>

fun log_arg :: "js_value \<Rightarrow> string" where
  "log_arg (Object Null) = ''null''"
| "log_arg (Object (Error name message)) = ''{}''"
| "log_arg (Object (Error_getter name thrown)) = ''{}''"
| "log_arg (Object (Plain json message text)) = json"
| "log_arg (Object (Plain_throwing json message thrown)) = json"
| "log_arg Undefined = ''undefined''"
| "log_arg (Boolean b) = (if b then ''true'' else ''false'')"
| "log_arg (Number text) = text"
| "log_arg (Str s) = s"
| "log_arg (Symbol description) = ''Symbol('' @ description @ '')''"
| "log_arg (Function src) = src"

text \<open>Lines 43 to 49: one call of the capturing \<^verbatim>\<open>console.log\<close> makes one line.\<close>

definition log_line :: "js_value list \<Rightarrow> string" where
  "log_line args = join '' '' (map log_arg args)"

text \<open>\<^verbatim>\<open>String.prototype.trim\<close>: the white space and line terminators among the code
  units below 256 are tab, line feed, vertical tab, form feed, carriage return, space
  and no-break space.\<close>

definition is_space :: "char \<Rightarrow> bool" where
  "is_space c = (of_char c \<in> {9, 10, 11, 12, 13, 32, 160 :: nat})"

definition trim :: "string \<Rightarrow> string" where
  "trim s = rev (dropWhile is_space (rev (dropWhile is_space s)))"

subsection \<open>The state of the component and of its surroundings\<close>

datatype Language = javascript | python

text \<open>
  Of the Pyodide instance the component touches one thing, \<^verbatim>\<open>sys.stdout\<close>: it is the
  stream the interpreter started with (\<^verbatim>\<open>sys.__stdout__\<close>, here \<open>original_stdout\<close>), an
  \<^verbatim>\<open>io.StringIO\<close> with the text written to it so far, or some other object, which has
  no \<^verbatim>\<open>getvalue\<close>. \<open>terminal\<close> is the text that went to the original stream.
\<close>

datatype py_stream = original_stdout | StringIO string | other_stream

record py_vm =
  sys_stdout :: py_stream
  terminal :: string

text \<open>
  The global property \<^verbatim>\<open>console.log\<close> holds the browser's own function, or the closure
  of lines 41 to 51, which is known by the array \<^verbatim>\<open>logs\<close> it pushes to (an index into
  \<open>arrays\<close>), or a function that user code has put there.
\<close>

datatype sink = native_log | capturing nat | other_function

datatype event =
    SetCode string
  | SetLanguage Language
  | SetIsDarkMode bool
  | SetOutput string
  | SetPyodide
  | SetIsLoading bool
  | NewFunction string
  | RunPython string

record world =
  code :: string
  language :: Language
  isDarkMode :: bool
  "output" :: string
  pyodide :: "py_vm option"
  isLoading :: bool
  console_log :: sink
  arrays :: "string list list"
  devtools :: "js_value list list"
  journal :: "event list"

text \<open>Lines 8 to 13, with the console untouched.\<close>

definition initial :: world where
  "initial =
     \<lparr>code = ''// Start coding here...'', language = javascript, isDarkMode = False,
      output = [], pyodide = None, isLoading = False,
      console_log = native_log, arrays = [], devtools = [], journal = []\<rparr>"

text \<open>
  A setter call stores the value and is entered in the journal. The calls of one task
  are applied in program order, and the states of the session are those between tasks:
  one task, a handler call or one part of \<^verbatim>\<open>initPyodide\<close>, runs to its end without
  giving up control, no handler reads a state variable after it has called a setter,
  and React applies the setter calls of a task when the task has ended.
\<close>

definition entered :: "event \<Rightarrow> world \<Rightarrow> world" where
  "entered e w = w\<lparr>journal := journal w @ [e]\<rparr>"

definition setCode :: "string \<Rightarrow> world \<Rightarrow> world" where
  "setCode s w = entered (SetCode s) (w\<lparr>code := s\<rparr>)"

definition setLanguage :: "Language \<Rightarrow> world \<Rightarrow> world" where
  "setLanguage l w = entered (SetLanguage l) (w\<lparr>language := l\<rparr>)"

definition setIsDarkMode :: "bool \<Rightarrow> world \<Rightarrow> world" where
  "setIsDarkMode b w = entered (SetIsDarkMode b) (w\<lparr>isDarkMode := b\<rparr>)"

definition setOutput :: "string \<Rightarrow> world \<Rightarrow> world" where
  "setOutput s w = entered (SetOutput s) (w\<lparr>output := s\<rparr>)"

definition setPyodide :: "py_vm option \<Rightarrow> world \<Rightarrow> world" where
  "setPyodide h w = entered SetPyodide (w\<lparr>pyodide := h\<rparr>)"

definition setIsLoading :: "bool \<Rightarrow> world \<Rightarrow> world" where
  "setIsLoading b w = entered (SetIsLoading b) (w\<lparr>isLoading := b\<rparr>)"

text \<open>The output that a sequence of journal entries leaves, given the output before
  them: the text of the last \<^verbatim>\<open>setOutput\<close> among them.\<close>

fun shown :: "string \<Rightarrow> event list \<Rightarrow> string" where
  "shown s [] = s"
| "shown s (SetOutput t # es) = shown t es"
| "shown s (e # es) = shown s es"

text \<open>
  \<open>continues w w'\<close>: the state \<open>w'\<close> comes after \<open>w\<close> in one call of a handler. Its
  journal is that of \<open>w\<close> with more entries, its output is the one these entries leave,
  and the loading flag and the presence of the handle are those of \<open>w\<close>.
\<close>

definition continues :: "world \<Rightarrow> world \<Rightarrow> bool" where
  "continues w w' =
     (\<exists>evs. journal w' = journal w @ evs \<and> output w' = shown (output w) evs \<and>
            isLoading w' = isLoading w \<and> (pyodide w' = None) = (pyodide w = None))"

text \<open>\<^verbatim>\<open>const logs: string[] = []\<close>: a new array; and \<^verbatim>\<open>logs.push(line)\<close>.\<close>

definition new_array :: "world \<Rightarrow> nat \<times> world" where
  "new_array w = (length (arrays w), w\<lparr>arrays := arrays w @ [[]]\<rparr>)"

definition push :: "nat \<Rightarrow> string \<Rightarrow> string list list \<Rightarrow> string list list" where
  "push a line arrs = (if a < length arrs then arrs[a := arrs ! a @ [line]] else arrs)"

definition array_at :: "world \<Rightarrow> nat \<Rightarrow> string list" where
  "array_at w a = (if a < length (arrays w) then arrays w ! a else [])"

text \<open>
  A call \<^verbatim>\<open>console.log(...args)\<close> runs whatever the property holds at that moment: the
  browser's function shows the arguments in the developer tools, the closure of lines
  41 to 51 pushes one line to its array, and what a function of the user's does is not
  followed.
\<close>

definition console_log_call :: "js_value list \<Rightarrow> world \<Rightarrow> world" where
  "console_log_call args w =
     (case console_log w of
        native_log \<Rightarrow> w\<lparr>devtools := devtools w @ [args]\<rparr>
      | capturing a \<Rightarrow> w\<lparr>arrays := push a (log_line args) (arrays w)\<rparr>
      | other_function \<Rightarrow> w)"

subsection \<open>Running source text\<close>

text \<open>
  \<^verbatim>\<open>new Function(code)()\<close> and \<^verbatim>\<open>pyodide.runPython(code)\<close> are the browser's and
  Pyodide's. What they do with a text is a parameter of the model: an engine maps the
  text to a run. A run of a function body is what it does to \<^verbatim>\<open>console.log\<close>, in
  order, a call or an assignment to the property, and how it ends: with a returned value
  (\<^verbatim>\<open>undefined\<close> when nothing is returned), with a thrown value (a text that does not
  parse throws a \<^verbatim>\<open>SyntaxError\<close> before anything else), or never.
\<close>

datatype js_action = Log "js_value list" | Assign sink

datatype js_completion = Returns js_value | Throws js_value | Hangs

record js_run =
  actions :: "js_action list"
  completion :: js_completion

type_synonym js_engine = "string \<Rightarrow> js_run"

fun act :: "js_action \<Rightarrow> world \<Rightarrow> world" where
  "act (Log args) w = console_log_call args w"
| "act (Assign f) w = w\<lparr>console_log := f\<rparr>"

text \<open>The arguments of the calls of a run, and whether the run leaves the property
  \<^verbatim>\<open>console.log\<close> alone.\<close>

fun logged :: "js_action list \<Rightarrow> js_value list list" where
  "logged [] = []"
| "logged (Log args # as) = args # logged as"
| "logged (Assign f # as) = logged as"

fun logs_only :: "js_action list \<Rightarrow> bool" where
  "logs_only [] = True"
| "logs_only (Log args # as) = logs_only as"
| "logs_only (Assign f # as) = False"

text \<open>
  A run of a Python program starts from the state of the interpreter and leaves a new
  one: the program may write to \<^verbatim>\<open>sys.stdout\<close>, or to the original stream, and may
  rebind \<^verbatim>\<open>sys.stdout\<close>. It ends with the value of its last expression, converted
  (\<^verbatim>\<open>None\<close> becomes \<^verbatim>\<open>undefined\<close>), with a thrown value, or never.
\<close>

datatype py_completion = PyValue js_value | PyRaises js_value | PyHangs

type_synonym py_engine = "string \<Rightarrow> py_vm \<Rightarrow> py_completion \<times> py_vm"

text \<open>\<^verbatim>\<open>sys.stdout.write(s)\<close>, as \<^verbatim>\<open>print\<close> does it.\<close>

definition stdout_write :: "string \<Rightarrow> py_vm \<Rightarrow> py_vm" where
  "stdout_write s vm =
     (case sys_stdout vm of
        StringIO buf \<Rightarrow> vm\<lparr>sys_stdout := StringIO (buf @ s)\<rparr>
      | original_stdout \<Rightarrow> vm\<lparr>terminal := terminal vm @ s\<rparr>
      | other_stream \<Rightarrow> vm)"

text \<open>The template literal of lines 71 to 75, with its line breaks and indentation.\<close>

definition redirect_script :: string where
  "redirect_script =
     ''\<newline>            import sys\<newline>            import io\<newline>            sys.stdout = io.StringIO()\<newline>          ''"

definition getvalue_script :: string where
  "getvalue_script = ''sys.stdout.getvalue()''"

definition restore_script :: string where
  "restore_script = ''sys.stdout = sys.__stdout__''"

text \<open>A \<^verbatim>\<open>PythonError\<close>, the \<^verbatim>\<open>Error\<close> that \<^verbatim>\<open>runPython\<close> throws for an exception of the
  program; its message is the traceback. The one below is raised when \<^verbatim>\<open>sys.stdout\<close>
  has no \<^verbatim>\<open>getvalue\<close>; its text stands for the traceback of Pyodide.\<close>

definition PythonError :: "string \<Rightarrow> js_value" where
  "PythonError traceback = Object (Error ''PythonError'' (Str traceback))"

definition no_getvalue :: js_value where
  "no_getvalue = PythonError ''AttributeError: object has no attribute getvalue''"

text \<open>
  \<^verbatim>\<open>pyodide.runPython(src)\<close>. The three scripts that the component itself sends mean
  what Python says: the first makes \<^verbatim>\<open>sys.stdout\<close> a new, empty \<^verbatim>\<open>StringIO\<close>; the
  second is the text of that buffer, and an \<^verbatim>\<open>AttributeError\<close> when \<^verbatim>\<open>sys.stdout\<close> is
  not a \<^verbatim>\<open>StringIO\<close>; the third puts the original stream back. This is their meaning
  while \<^verbatim>\<open>io.StringIO\<close> and \<^verbatim>\<open>sys.__stdout__\<close> are what the interpreter started with.
  Any other text runs as the engine says.
\<close>

definition runPython :: "py_engine \<Rightarrow> string \<Rightarrow> py_vm \<Rightarrow> py_completion \<times> py_vm" where
  "runPython P src vm =
     (if src = redirect_script then (PyValue Undefined, vm\<lparr>sys_stdout := StringIO []\<rparr>)
      else if src = getvalue_script then
        (case sys_stdout vm of
           StringIO buf \<Rightarrow> (PyValue (Str buf), vm)
         | _ \<Rightarrow> (PyRaises no_getvalue, vm))
      else if src = restore_script then (PyValue Undefined, vm\<lparr>sys_stdout := original_stdout\<rparr>)
      else P src vm)"

text \<open>The call through the handle held in the state variable \<^verbatim>\<open>pyodide\<close>; a call
  through \<^verbatim>\<open>null\<close> is a \<^verbatim>\<open>TypeError\<close>.\<close>

definition pyodide_runPython :: "py_engine \<Rightarrow> string \<Rightarrow> world \<Rightarrow> py_completion \<times> world" where
  "pyodide_runPython P src w =
     (case pyodide w of
        None \<Rightarrow>
          (PyRaises (TypeError ''Cannot read properties of null (reading 'runPython')''), w)
      | Some vm \<Rightarrow>
          (let (r, vm') = runPython P src vm
           in (r, entered (RunPython src) (w\<lparr>pyodide := Some vm'\<rparr>))))"

text \<open>Statements in sequence inside a \<^verbatim>\<open>try\<close>: the next one runs when the one before
  it has returned.\<close>

definition and_then ::
  "py_completion \<times> world \<Rightarrow> (js_value \<Rightarrow> world \<Rightarrow> py_completion \<times> world) \<Rightarrow> py_completion \<times> world"
where
  "and_then m k = (case m of (PyValue v, w) \<Rightarrow> k v w | (r, w) \<Rightarrow> (r, w))"

subsection \<open>\<^verbatim>\<open>handleRunCode\<close>\<close>

text \<open>How a block of the handler ends: it falls through to what follows it, it returns
  from the handler, it throws, or it does not end.\<close>

datatype signal = Fallthrough | Return | Throw js_value | Hang

text \<open>
  Lines 37 to 62, the branch \<^verbatim>\<open>language === "javascript"\<close>. When the body has returned,
  line 57 puts back what line 38 saved; the conversion of the result on line 61 comes
  after that, and what it throws leaves the block.
\<close>

definition run_javascript :: "js_engine \<Rightarrow> string \<Rightarrow> world \<Rightarrow> signal \<times> world" where
  "run_javascript E src w =
     (let originalConsoleLog = console_log w;
          (logs, w1) = new_array w;
          w2 = w1\<lparr>console_log := capturing logs\<rparr>;
          w3 = entered (NewFunction src) w2;
          w4 = foldl (\<lambda>v a. act a v) w3 (actions (E src))
      in case completion (E src) of
           Hangs \<Rightarrow> (Hang, w4)
         | Throws error \<Rightarrow> (Throw error, w4)
         | Returns result \<Rightarrow>
             (let w5 = w4\<lparr>console_log := originalConsoleLog\<rparr>
              in case shown_result result of
                   Inl error \<Rightarrow> (Throw error, w5)
                 | Inr suffix \<Rightarrow>
                     (Fallthrough,
                      setOutput (join ''\<newline>'' (array_at w5 logs) @ suffix) w5)))"

text \<open>
  Lines 69 to 89, the inner \<^verbatim>\<open>try\<close> block. On lines 87 and 88 the template literal is
  evaluated first, then the concatenation converts \<^verbatim>\<open>stdout\<close>.
\<close>

definition python_try :: "py_engine \<Rightarrow> string \<Rightarrow> world \<Rightarrow> py_completion \<times> world" where
  "python_try P src w =
     and_then (pyodide_runPython P redirect_script w) (\<lambda>_ w1.
     and_then (pyodide_runPython P src w1) (\<lambda>result w2.
     and_then (pyodide_runPython P getvalue_script w2) (\<lambda>stdout w3.
     and_then (pyodide_runPython P restore_script w3) (\<lambda>_ w4.
       (case shown_result result of
          Inl error \<Rightarrow> (PyRaises error, w4)
        | Inr suffix \<Rightarrow>
            (case ToString stdout of
               Inl error \<Rightarrow> (PyRaises error, w4)
             | Inr text \<Rightarrow> (PyValue Undefined, setOutput (trim (text @ suffix)) w4)))))))"

text \<open>
  Lines 64 to 92, the branch \<^verbatim>\<open>language === "python"\<close>, with the inner \<^verbatim>\<open>catch\<close> of
  lines 90 to 92, which tests nothing and whose template literal may throw in its turn.
\<close>

definition run_python :: "py_engine \<Rightarrow> string \<Rightarrow> world \<Rightarrow> signal \<times> world" where
  "run_python P src w =
     (case pyodide w of
        None \<Rightarrow> (Return, setOutput ''Python runtime is not ready yet. Please wait...'' w)
      | Some _ \<Rightarrow>
          (case python_try P src w of
             (PyValue _, w') \<Rightarrow> (Fallthrough, w')
           | (PyRaises error, w') \<Rightarrow>
               (case message_text error of
                  Inl thrown \<Rightarrow> (Throw thrown, w')
                | Inr text \<Rightarrow> (Fallthrough, setOutput (''Error: '' @ text) w'))
           | (PyHangs, w') \<Rightarrow> (Hang, w')))"

text \<open>How a call of the handler ends for its caller: it returns, an exception leaves it
  (the promise of the \<^verbatim>\<open>async\<close> function is rejected), or it does not end.\<close>

datatype ending = Finished | Escaped js_value | Stuck

text \<open>
  Lines 32 to 101. The handler reads \<^verbatim>\<open>language\<close>, \<^verbatim>\<open>code\<close> and \<^verbatim>\<open>pyodide\<close> as they
  are when it is called. The template literal of line 96 stands in the \<^verbatim>\<open>catch\<close> block:
  what it throws leaves the handler.
\<close>

definition handleRunCode :: "js_engine \<Rightarrow> py_engine \<Rightarrow> world \<Rightarrow> ending \<times> world" where
  "handleRunCode E P w =
     (let w0 = setOutput [] w;
          (s, w1) =
            (if language w = javascript then run_javascript E (code w) w0
             else if language w = python then run_python P (code w) w0
             else (Fallthrough, w0))
      in case s of
           Throw error \<Rightarrow>
             (if instanceof_Error error then
                (case message_text error of
                   Inl thrown \<Rightarrow> (Escaped thrown, w1)
                 | Inr text \<Rightarrow> (Finished, setOutput (''Error: '' @ text) w1))
              else (Finished, setOutput ''An unknown error occurred'' w1))
         | Hang \<Rightarrow> (Stuck, w1)
         | _ \<Rightarrow> (Finished, w1))"

subsection \<open>\<^verbatim>\<open>handleLanguageChange\<close> and the bootstrap\<close>

text \<open>Lines 103 to 111.\<close>

definition handleLanguageChange :: "Language \<Rightarrow> world \<Rightarrow> world" where
  "handleLanguageChange newLanguage w =
     setOutput []
       (setCode (if newLanguage = python then ''# Start coding here...''
                 else ''// Start coding here...'')
          (setLanguage newLanguage w))"

text \<open>
  Lines 16 to 28. \<^verbatim>\<open>loadPyodide\<close> settles with an instance, whose \<^verbatim>\<open>sys.stdout\<close> is
  the original stream, or with an error. The function runs in two tasks, one up to the
  \<^verbatim>\<open>await\<close> of line 19 and one from there to its end.
\<close>

datatype load_result = Loaded py_vm | Failed js_value

text \<open>An instance as \<^verbatim>\<open>loadPyodide\<close> delivers it.\<close>

definition vm0 :: py_vm where
  "vm0 = \<lparr>sys_stdout = original_stdout, terminal = []\<rparr>"

definition console_error :: "js_value list \<Rightarrow> world \<Rightarrow> world" where
  "console_error args w = w\<lparr>devtools := devtools w @ [args]\<rparr>"

text \<open>Line 18.\<close>

definition initPyodide_start :: "world \<Rightarrow> world" where
  "initPyodide_start w = setIsLoading True w"

text \<open>Lines 19 to 27, once \<^verbatim>\<open>loadPyodide\<close> has settled: the rest of the \<^verbatim>\<open>try\<close> block or
  the \<^verbatim>\<open>catch\<close> block, and then the \<^verbatim>\<open>finally\<close> block.\<close>

definition initPyodide_resume :: "load_result \<Rightarrow> world \<Rightarrow> world" where
  "initPyodide_resume r w =
     setIsLoading False
       (case r of
          Loaded pyodideInstance \<Rightarrow> setPyodide (Some pyodideInstance) w
        | Failed error \<Rightarrow> console_error [Str ''Failed to load Pyodide:'', error] w)"

subsection \<open>The session\<close>

text \<open>
  The tasks of a session, each run to its end before the next begins: the mount effect
  (line 29, up to the \<^verbatim>\<open>await\<close>), the settling of \<^verbatim>\<open>loadPyodide\<close> (once, after the
  mount), a click on Run, a click on a language button, an edit of the text area
  (\<^verbatim>\<open>setCode(e.target.value)\<close>) and a click on the theme button. A click on Run comes
  with the engines as they are at that moment: what an engine does with a text may
  change from one run to the next, since the globals of both interpreters persist. A
  run that does not end leaves the page frozen: no later task runs. The Run button is
  disabled for Python while there is no handle; here the handler may be called all the
  same.
\<close>

datatype boot = Unmounted | Awaiting | Settled

datatype task =
    Mount
  | Settle load_result
  | ClickRun js_engine py_engine
  | ClickLanguage Language
  | Edit string
  | ClickTheme

record session =
  boot :: boot
  frozen :: bool
  app :: world

definition session0 :: session where
  "session0 = \<lparr>boot = Unmounted, frozen = False, app = initial\<rparr>"

fun perform :: "session \<Rightarrow> task \<Rightarrow> session" where
  "perform s Mount =
     (if frozen s \<or> boot s \<noteq> Unmounted then s
      else s\<lparr>boot := Awaiting, app := initPyodide_start (app s)\<rparr>)"
| "perform s (Settle r) =
     (if frozen s \<or> boot s \<noteq> Awaiting then s
      else s\<lparr>boot := Settled, app := initPyodide_resume r (app s)\<rparr>)"
| "perform s (ClickRun E P) =
     (if frozen s then s
      else case handleRunCode E P (app s) of
             (Stuck, w) \<Rightarrow> s\<lparr>frozen := True, app := w\<rparr>
           | (_, w) \<Rightarrow> s\<lparr>app := w\<rparr>)"
| "perform s (ClickLanguage l) =
     (if frozen s then s else s\<lparr>app := handleLanguageChange l (app s)\<rparr>)"
| "perform s (Edit text) =
     (if frozen s then s else s\<lparr>app := setCode text (app s)\<rparr>)"
| "perform s ClickTheme =
     (if frozen s then s else s\<lparr>app := setIsDarkMode (\<not> isDarkMode (app s)) (app s)\<rparr>)"

definition after :: "task list \<Rightarrow> session" where
  "after tasks = foldl perform session0 tasks"

text \<open>The handle is present only once the bootstrap has settled and cleared the flag.\<close>

definition settled_when_ready :: "session \<Rightarrow> bool" where
  "settled_when_ready s =
     (pyodide (app s) = None \<or> (\<not> isLoading (app s) \<and> boot s = Settled))"




subsection \<open>Engines on a fragment of each language\<close>

text \<open>
  For the scenarios that name a source text, the engines are made concrete on a
  fragment of each language, read from the text itself: literals, \<^verbatim>\<open>console.log\<close> and
  \<^verbatim>\<open>print\<close> calls with literal arguments, and for the function body \<^verbatim>\<open>return\<close>,
  \<^verbatim>\<open>throw\<close>, \<^verbatim>\<open>new Error("...")\<close>, \<^verbatim>\<open>Symbol()\<close> and the assignment
  \<^verbatim>\<open>console.log = function(){}\<close>. On a text outside the fragment they say nothing, and
  an engine given as a parameter answers.
\<close>

datatype token = Ident string | Numeral string | Quoted string | Punct char

datatype scanning = Between | InIdent string | InNumeral string | InQuoted string

definition is_digit :: "char \<Rightarrow> bool" where
  "is_digit c = (c \<in> set ''0123456789'')"

definition is_letter :: "char \<Rightarrow> bool" where
  "is_letter c = (c \<in> set ''abcdefghijklmnopqrstuvwxyzABCDEFGHIJKLMNOPQRSTUVWXYZ_'')"

definition begin_token :: "char \<Rightarrow> (token list \<times> scanning) option" where
  "begin_token c =
     (if c = CHR '' '' then Some ([], Between)
      else if is_letter c then Some ([], InIdent [c])
      else if is_digit c then Some ([], InNumeral [c])
      else if c = CHR 0x22 then Some ([], InQuoted [])
      else if c \<in> set ''.(),;={}'' then Some ([Punct c], Between)
      else None)"

fun scan_char :: "scanning \<Rightarrow> char \<Rightarrow> (token list \<times> scanning) option" where
  "scan_char Between c = begin_token c"
| "scan_char (InIdent s) c =
     (if is_letter c \<or> is_digit c then Some ([], InIdent (s @ [c]))
      else map_option (\<lambda>(ts, m). (Ident s # ts, m)) (begin_token c))"
| "scan_char (InNumeral ds) c =
     (if is_digit c then Some ([], InNumeral (ds @ [c]))
      else if is_letter c \<or> c = CHR ''.'' then None
      else map_option (\<lambda>(ts, m). (Numeral ds # ts, m)) (begin_token c))"
| "scan_char (InQuoted s) c =
     (if c = CHR 0x22 then Some ([Quoted s], Between)
      else if c = CHR 0x5C \<or> c = CHR 0x0A \<or> c = CHR 0x0D then None
      else Some ([], InQuoted (s @ [c])))"

fun scan :: "scanning \<Rightarrow> string \<Rightarrow> token list option" where
  "scan Between [] = Some []"
| "scan (InIdent s) [] = Some [Ident s]"
| "scan (InNumeral ds) [] = Some [Numeral ds]"
| "scan (InQuoted s) [] = None"
| "scan m (c # cs) =
     (case scan_char m c of
        None \<Rightarrow> None
      | Some (ts, m') \<Rightarrow> map_option ((@) ts) (scan m' cs))"

text \<open>\<open>pieces sep xs\<close> cuts \<open>xs\<close> at every \<open>sep\<close>.\<close>

fun pieces :: "'a \<Rightarrow> 'a list \<Rightarrow> 'a list list" where
  "pieces sep [] = [[]]"
| "pieces sep (x # xs) =
     (case pieces sep xs of
        [] \<Rightarrow> [[x]]
      | p # ps \<Rightarrow> if x = sep then [] # p # ps else (x # p) # ps)"

text \<open>The tokens between \<^verbatim>\<open>(\<close> and a closing \<^verbatim>\<open>)\<close>, cut at the commas.\<close>

definition arguments :: "(token list \<Rightarrow> js_value option) \<Rightarrow> token list \<Rightarrow> js_value list option" where
  "arguments literal ts =
     (if ts = [] \<or> last ts \<noteq> Punct (CHR '')'') then None
      else if butlast ts = [] then Some []
      else those (map literal (pieces (Punct (CHR '','')) (butlast ts))))"

text \<open>A decimal numeral that is the text of its own value: no leading zero (which would
  make it octal, or an error in Python) and at most fifteen digits.\<close>

definition plain_numeral :: "string \<Rightarrow> bool" where
  "plain_numeral ds = (ds \<noteq> [] \<and> length ds \<le> 15 \<and> (hd ds \<noteq> CHR ''0'' \<or> length ds = 1))"

subsubsection \<open>Function bodies\<close>

fun js_atom :: "token \<Rightarrow> js_value option" where
  "js_atom (Numeral ds) = (if plain_numeral ds then Some (Number ds) else None)"
| "js_atom (Quoted s) = Some (Str s)"
| "js_atom (Ident w) =
     (if w = ''undefined'' then Some Undefined
      else if w = ''null'' then Some (Object Null)
      else if w = ''true'' then Some (Boolean True)
      else if w = ''false'' then Some (Boolean False)
      else None)"
| "js_atom (Punct c) = None"

text \<open>One string literal in parentheses.\<close>

fun quoted_argument :: "token list \<Rightarrow> string option" where
  "quoted_argument [Punct l, Quoted d, Punct r] =
     (if l = CHR ''('' \<and> r = CHR '')'' then Some d else None)"
| "quoted_argument ts = None"

definition js_literal :: "token list \<Rightarrow> js_value option" where
  "js_literal ts =
     (case ts of
        [t] \<Rightarrow> js_atom t
      | Ident s # rest \<Rightarrow>
          (if s = ''Symbol'' then
             (if rest = [Punct (CHR ''(''), Punct (CHR '')'')] then Some (Symbol [])
              else map_option Symbol (quoted_argument rest))
           else if s = ''new'' then
             (case rest of
                Ident e # rest' \<Rightarrow>
                  (if e = ''Error''
                   then map_option (\<lambda>m. Object (Error ''Error'' (Str m))) (quoted_argument rest')
                   else None)
              | _ \<Rightarrow> None)
           else None)
      | _ \<Rightarrow> None)"

datatype js_statement =
    Empty
  | LogStatement "js_value list"
  | AssignStatement
  | Expression js_value
  | ReturnStatement js_value
  | ThrowStatement js_value

fun js_parse :: "token list \<Rightarrow> js_statement option" where
  "js_parse [] = Some Empty"
| "js_parse (Ident w # ts) =
     (if w = ''return'' then
        (if ts = [] then Some (ReturnStatement Undefined)
         else map_option ReturnStatement (js_literal ts))
      else if w = ''throw'' then map_option ThrowStatement (js_literal ts)
      else if w = ''console'' then
        (case ts of
           Punct d # Ident l # Punct b # rest \<Rightarrow>
             (if d = CHR ''.'' \<and> l = ''log'' \<and> b = CHR ''(''
              then map_option LogStatement (arguments js_literal rest)
              else if d = CHR ''.'' \<and> l = ''log'' \<and> b = CHR ''='' \<and>
                      rest = [Ident ''function'', Punct (CHR ''(''), Punct (CHR '')''),
                              Punct (CHR ''{''), Punct (CHR ''}'')]
              then Some AssignStatement
              else None)
         | _ \<Rightarrow> None)
      else map_option Expression (js_literal (Ident w # ts)))"
| "js_parse ts = map_option Expression (js_literal ts)"

text \<open>
  Calling the function made from a body: the statements run in order; the value of an
  expression statement is dropped; \<^verbatim>\<open>return\<close> ends the call with its value and
  \<^verbatim>\<open>throw\<close> with the thrown value; a body that runs to its end returns \<^verbatim>\<open>undefined\<close>.
\<close>

fun call_body :: "js_statement list \<Rightarrow> js_run" where
  "call_body [] = \<lparr>actions = [], completion = Returns Undefined\<rparr>"
| "call_body (Empty # ss) = call_body ss"
| "call_body (Expression v # ss) = call_body ss"
| "call_body (LogStatement args # ss) =
     (let r = call_body ss in r\<lparr>actions := Log args # actions r\<rparr>)"
| "call_body (AssignStatement # ss) =
     (let r = call_body ss in r\<lparr>actions := Assign other_function # actions r\<rparr>)"
| "call_body (ReturnStatement v # ss) = \<lparr>actions = [], completion = Returns v\<rparr>"
| "call_body (ThrowStatement v # ss) = \<lparr>actions = [], completion = Throws v\<rparr>"

text \<open>A text that is one line comment is an empty body.\<close>

definition js_fragment :: "string \<Rightarrow> js_run option" where
  "js_fragment src =
     (if take 2 src = ''//'' \<and> CHR 0x0A \<notin> set src \<and> CHR 0x0D \<notin> set src
      then Some (call_body [])
      else case scan Between src of
             None \<Rightarrow> None
           | Some ts \<Rightarrow>
               map_option call_body (those (map js_parse (pieces (Punct (CHR '';'')) ts))))"

definition small_js :: "js_engine \<Rightarrow> js_engine" where
  "small_js E src = (case js_fragment src of Some r \<Rightarrow> r | None \<Rightarrow> E src)"

subsubsection \<open>Python programs\<close>

fun py_atom :: "token \<Rightarrow> js_value option" where
  "py_atom (Numeral ds) = (if plain_numeral ds then Some (Number ds) else None)"
| "py_atom (Quoted s) = Some (Str s)"
| "py_atom t = None"

definition py_literal :: "token list \<Rightarrow> js_value option" where
  "py_literal ts = (case ts of [t] \<Rightarrow> py_atom t | _ \<Rightarrow> None)"

datatype py_statement = Blank | Print "js_value list" | Value js_value

fun py_parse :: "token list \<Rightarrow> py_statement option" where
  "py_parse [] = Some Blank"
| "py_parse (Ident w # Punct b # rest) =
     (if w = ''print'' \<and> b = CHR ''('' then map_option Print (arguments py_literal rest)
      else None)"
| "py_parse ts = map_option Value (py_literal ts)"

text \<open>One statement on each line; a line that begins with \<^verbatim>\<open>#\<close> is a comment, and an
  indented line is outside the fragment.\<close>

definition py_line :: "string \<Rightarrow> py_statement option" where
  "py_line line =
     (if line = [] then Some Blank
      else if hd line = CHR ''#'' then Some Blank
      else if hd line = CHR '' '' then None
      else Option.bind (scan Between line) py_parse)"

definition py_fragment :: "string \<Rightarrow> py_statement list option" where
  "py_fragment src =
     map_option (filter (\<lambda>st. st \<noteq> Blank)) (those (map py_line (pieces (CHR 0x0A) src)))"

text \<open>\<^verbatim>\<open>str\<close> of a literal of the fragment.\<close>

fun py_str :: "js_value \<Rightarrow> string" where
  "py_str (Number ds) = ds"
| "py_str (Str s) = s"
| "py_str v = []"

text \<open>
  \<^verbatim>\<open>print\<close> writes its arguments, separated by spaces, and a line feed to
  \<^verbatim>\<open>sys.stdout\<close>, and its value is \<^verbatim>\<open>None\<close>. \<^verbatim>\<open>runPython\<close> gives the value of the last
  statement when that is an expression; \<^verbatim>\<open>None\<close> arrives as \<^verbatim>\<open>undefined\<close>.
\<close>

fun run_program :: "py_statement list \<Rightarrow> py_vm \<Rightarrow> js_value \<times> py_vm" where
  "run_program [] vm = (Undefined, vm)"
| "run_program (Blank # ss) vm = run_program ss vm"
| "run_program (Print args # ss) vm =
     (let (v, vm') = run_program ss (stdout_write (join '' '' (map py_str args) @ ''\<newline>'') vm)
      in (if ss = [] then Undefined else v, vm'))"
| "run_program (Value x # ss) vm =
     (let (v, vm') = run_program ss vm in (if ss = [] then x else v, vm'))"

definition small_py :: "py_engine \<Rightarrow> py_engine" where
  "small_py P src vm =
     (case py_fragment src of
        Some program \<Rightarrow> (let (v, vm') = run_program program vm in (PyValue v, vm'))
      | None \<Rightarrow> P src vm)"

subsubsection \<open>Engines for single runs\<close>

text \<open>An engine whose every run is the given one; an engine whose every program writes
  the given text and ends in the given way; and an engine whose every program rebinds
  \<^verbatim>\<open>sys.stdout\<close> to the given stream and ends in the given way.\<close>

definition always_js :: "js_run \<Rightarrow> js_engine" where
  "always_js r src = r"

definition writing_py :: "string \<Rightarrow> py_completion \<Rightarrow> py_engine" where
  "writing_py s c src vm = (c, stdout_write s vm)"

definition rebinding_py :: "py_stream \<Rightarrow> py_completion \<Rightarrow> py_engine" where
  "rebinding_py stream c src vm = (c, vm\<lparr>sys_stdout := stream\<rparr>)"

text \<open>Engines that answer nothing of their own: a run that does not end.\<close>

definition no_js :: js_engine where
  "no_js = always_js \<lparr>actions = [], completion = Hangs\<rparr>"

definition no_py :: py_engine where
  "no_py = writing_py [] PyHangs"

section \<open>Properties\<close>

subsection \<open>Auxiliary facts\<close>

lemmas setters =
  entered_def setCode_def setLanguage_def setIsDarkMode_def setOutput_def setPyodide_def
  setIsLoading_def

lemma shown_append: "shown s (es @ es') = shown (shown s es) es'"
proof (induction es arbitrary: s)
  case Nil
  then show ?case by simp
next
  case (Cons e es)
  then show ?case by (cases e) simp_all
qed

lemma continues_refl: "continues w w"
  unfolding continues_def by (rule exI [of _ "[]"]) simp

lemma continues_trans:
  assumes "continues w w1" and "continues w1 w2"
  shows "continues w w2"
proof -
  from assms(1) obtain es where
    1: "journal w1 = journal w @ es \<and> output w1 = shown (output w) es \<and>
        isLoading w1 = isLoading w \<and> (pyodide w1 = None) = (pyodide w = None)"
    unfolding continues_def ..
  from assms(2) obtain es' where
    2: "journal w2 = journal w1 @ es' \<and> output w2 = shown (output w1) es' \<and>
        isLoading w2 = isLoading w1 \<and> (pyodide w2 = None) = (pyodide w1 = None)"
    unfolding continues_def ..
  show ?thesis
    unfolding continues_def
    by (rule exI [of _ "es @ es'"]) (simp add: 1 2 shown_append)
qed

lemma continues_setOutput: "continues w (setOutput s w)"
  unfolding continues_def by (rule exI [of _ "[SetOutput s]"]) (simp add: setters)

lemma continues_then_setOutput:
  "continues w w' \<Longrightarrow> continues w (setOutput s w')"
  by (erule continues_trans) (rule continues_setOutput)

lemma continues_then_NewFunction:
  "continues w w' \<Longrightarrow> continues w (entered (NewFunction src) w')"
  unfolding continues_def
  by (erule exE, rule_tac x = "evs @ [NewFunction src]" in exI)
    (simp add: entered_def shown_append)

lemma continues_then_RunPython:
  "continues w w' \<Longrightarrow> continues w (entered (RunPython src) w')"
  unfolding continues_def
  by (erule exE, rule_tac x = "evs @ [RunPython src]" in exI)
    (simp add: entered_def shown_append)

lemma continues_then_console:
  "continues w w' \<Longrightarrow> continues w (w'\<lparr>console_log := c\<rparr>)"
  "continues w w' \<Longrightarrow> continues w (w'\<lparr>arrays := r\<rparr>)"
  "continues w w' \<Longrightarrow> continues w (w'\<lparr>devtools := d\<rparr>)"
  by (simp_all add: continues_def)

lemma continues_then_vm:
  "continues w w' \<Longrightarrow> pyodide w' \<noteq> None \<Longrightarrow> continues w (w'\<lparr>pyodide := Some vm\<rparr>)"
  by (simp add: continues_def)

text \<open>A function body touches the console and nothing else.\<close>

lemma act_frame [simp]:
  "journal (act a w) = journal w"
  "output (act a w) = output w"
  "isLoading (act a w) = isLoading w"
  "pyodide (act a w) = pyodide w"
  by (cases a; cases "console_log w"; simp add: console_log_call_def)+

lemma acts_frame [simp]:
  "journal (foldl (\<lambda>v a. act a v) w as) = journal w"
  "output (foldl (\<lambda>v a. act a v) w as) = output w"
  "isLoading (foldl (\<lambda>v a. act a v) w as) = isLoading w"
  "pyodide (foldl (\<lambda>v a. act a v) w as) = pyodide w"
  by (induction as arbitrary: w) simp_all

lemma continues_then_acts:
  "continues w w' \<Longrightarrow> continues w (foldl (\<lambda>v a. act a v) w' as)"
  by (simp add: continues_def)

text \<open>While the closure of a run is installed and the body leaves the property alone,
  the calls of the body fill the array of the closure.\<close>

lemma console_log_call_capturing:
  assumes "console_log w = capturing a" and "a < length (arrays w)"
  shows "console_log_call args w = w\<lparr>arrays := (arrays w)[a := arrays w ! a @ [log_line args]]\<rparr>"
  using assms by (simp add: console_log_call_def push_def)

lemma captured_calls:
  assumes "console_log w = capturing a" and "a < length (arrays w)" and "logs_only as"
  shows "foldl (\<lambda>v a. act a v) w as =
           w\<lparr>arrays := (arrays w)[a := arrays w ! a @ map log_line (logged as)]\<rparr>"
  using assms
proof (induction as arbitrary: w rule: logs_only.induct)
  case 1
  then show ?case by simp
next
  case (2 args as)
  let ?w = "w\<lparr>arrays := (arrays w)[a := arrays w ! a @ [log_line args]]\<rparr>"
  have step: "act (Log args) w = ?w"
    using "2.prems" by (simp add: console_log_call_capturing)
  have "foldl (\<lambda>v a. act a v) ?w as =
          ?w\<lparr>arrays := (arrays ?w)[a := arrays ?w ! a @ map log_line (logged as)]\<rparr>"
    using "2.prems" by (intro "2.IH") simp_all
  with step show ?case using "2.prems" by simp
next
  case (3 f as)
  then show ?case by simp
qed

lemma body_calls:
  assumes "logs_only as"
  shows "foldl (\<lambda>v a. act a v)
     (w\<lparr>arrays := arrays w @ [[]], console_log := capturing (length (arrays w)),
        journal := journal w @ [NewFunction src]\<rparr>) as =
   w\<lparr>arrays := arrays w @ [map log_line (logged as)],
     console_log := capturing (length (arrays w)),
     journal := journal w @ [NewFunction src]\<rparr>"
proof -
  let ?w3 = "w\<lparr>arrays := arrays w @ [[]], console_log := capturing (length (arrays w)),
     journal := journal w @ [NewFunction src]\<rparr>"
  have "foldl (\<lambda>v a. act a v) ?w3 as =
     ?w3\<lparr>arrays := (arrays ?w3)[length (arrays w) :=
             arrays ?w3 ! length (arrays w) @ map log_line (logged as)]\<rparr>"
    using assms by (intro captured_calls) simp_all
  then show ?thesis by simp
qed

text \<open>The branch for function bodies, when the body leaves \<^verbatim>\<open>console.log\<close> alone.\<close>

lemma run_javascript_returns:
  assumes "completion (E src) = Returns result" and "logs_only (actions (E src))"
    and "shown_result result = Inr suffix"
  shows "run_javascript E src w =
     (Fallthrough,
      w\<lparr>arrays := arrays w @ [map log_line (logged (actions (E src)))],
        output := join ''\<newline>'' (map log_line (logged (actions (E src)))) @ suffix,
        journal := journal w @ [NewFunction src,
           SetOutput (join ''\<newline>'' (map log_line (logged (actions (E src)))) @ suffix)]\<rparr>)"
  using assms
  by (simp add: run_javascript_def new_array_def body_calls setOutput_def entered_def array_at_def)




text \<open>The same branch, whatever the body does.\<close>

lemma run_javascript_continues: "continues w (snd (run_javascript E src w))"
  by (simp add: run_javascript_def new_array_def Let_def continues_refl
      continues_then_setOutput continues_then_NewFunction continues_then_console
      continues_then_acts split: js_completion.splits sum.splits)


text \<open>The scripts of the component.\<close>

lemma runPython_redirect [simp]:
  "runPython P redirect_script vm = (PyValue Undefined, vm\<lparr>sys_stdout := StringIO []\<rparr>)"
  by (simp add: runPython_def)

lemma runPython_getvalue [simp]:
  "runPython P getvalue_script vm =
     (case sys_stdout vm of
        StringIO buf \<Rightarrow> (PyValue (Str buf), vm)
      | _ \<Rightarrow> (PyRaises no_getvalue, vm))"
  by (simp add: runPython_def redirect_script_def getvalue_script_def)

lemma runPython_restore [simp]:
  "runPython P restore_script vm = (PyValue Undefined, vm\<lparr>sys_stdout := original_stdout\<rparr>)"
  by (simp add: runPython_def redirect_script_def getvalue_script_def restore_script_def)

lemma message_text_no_getvalue [simp]:
  "message_text no_getvalue = Inr ''AttributeError: object has no attribute getvalue''"
  by (simp add: message_text_def no_getvalue_def PythonError_def)

text \<open>What holds before a step of the inner \<^verbatim>\<open>try\<close> block and is kept by every call of
  \<^verbatim>\<open>runPython\<close> and of \<^verbatim>\<open>setOutput\<close> holds after the block.\<close>

lemma and_then_keeps:
  assumes "R (snd m)" and "\<And>v w1. R w1 \<Longrightarrow> R (snd (k v w1))"
  shows "R (snd (and_then m k))"
proof (cases m)
  case (Pair r w1)
  with assms show ?thesis
    by (cases r) (simp_all add: and_then_def)
qed

lemma python_try_keeps:
  assumes start: "R w"
    and run: "\<And>src w1. R w1 \<Longrightarrow> R (snd (pyodide_runPython P src w1))"
    and out: "\<And>s w1. R w1 \<Longrightarrow> R (setOutput s w1)"
  shows "R (snd (python_try P src w))"
  unfolding python_try_def
  apply (rule and_then_keeps [where R = R])
   apply (rule run, rule start)
  apply (rule and_then_keeps [where R = R])
   apply (rule run, assumption)
  apply (rule and_then_keeps [where R = R])
   apply (rule run, assumption)
  apply (rule and_then_keeps [where R = R])
   apply (rule run, assumption)
  apply (simp add: out split: sum.splits)
  done

lemma run_python_keeps:
  assumes start: "R w"
    and run: "\<And>src w1. R w1 \<Longrightarrow> R (snd (pyodide_runPython P src w1))"
    and out: "\<And>s w1. R w1 \<Longrightarrow> R (setOutput s w1)"
  shows "R (snd (run_python P src w))"
proof -
  have "R (snd (python_try P src w))"
    by (rule python_try_keeps [where R = R, OF start run out])
  then show ?thesis
    by (cases "python_try P src w")
      (simp add: run_python_def out start
        split: option.splits py_completion.splits sum.splits)
qed

lemma pyodide_runPython_continues:
  assumes "continues w w1"
  shows "continues w (snd (pyodide_runPython P src w1))"
proof (cases "pyodide w1")
  case None
  with assms show ?thesis by (simp add: pyodide_runPython_def)
next
  case (Some vm)
  obtain r vm' where "runPython P src vm = (r, vm')"
    by (cases "runPython P src vm")
  with Some assms show ?thesis
    by (simp add: pyodide_runPython_def continues_then_RunPython continues_then_vm)
qed

lemma run_python_continues: "continues w (snd (run_python P src w))"
  by (rule run_python_keeps [where R = "continues w"])
    (simp_all add: continues_refl pyodide_runPython_continues continues_then_setOutput)


text \<open>The whole handler: after the first setter call, every state continues the one
  before.\<close>

lemma handleRunCode_continues: "continues (setOutput [] w) (snd (handleRunCode E P w))"
proof -
  let ?w0 = "setOutput [] w"
  let ?branch = "if language w = javascript then run_javascript E (code w) ?w0
     else if language w = python then run_python P (code w) ?w0 else (Fallthrough, ?w0)"
  have "continues ?w0 (snd ?branch)"
    by (simp add: run_javascript_continues run_python_continues continues_refl)
  then show ?thesis
    by (cases ?branch)
      (simp add: handleRunCode_def Let_def continues_then_setOutput
        split: signal.splits sum.splits)
qed


text \<open>The Python branch, case by case.\<close>

lemma python_not_ready:
  assumes "language w = python" and "pyodide w = None"
  shows "handleRunCode E P w =
     (Finished,
      w\<lparr>output := ''Python runtime is not ready yet. Please wait...'',
        journal := journal w @
          [SetOutput [], SetOutput ''Python runtime is not ready yet. Please wait...'']\<rparr>)"
  using assms by (simp add: handleRunCode_def run_python_def setters)


lemma python_try_unconvertible:
  assumes "pyodide w = Some vm"
    and "runPython P src (vm\<lparr>sys_stdout := StringIO []\<rparr>) = (PyValue result, vm')"
    and "sys_stdout vm' = StringIO buf"
    and "shown_result result = Inl error"
  shows "python_try P src w =
     (PyRaises error,
      w\<lparr>pyodide := Some (vm'\<lparr>sys_stdout := original_stdout\<rparr>),
        journal := journal w @
          [RunPython redirect_script, RunPython src, RunPython getvalue_script,
           RunPython restore_script]\<rparr>)"
  using assms
  by (simp add: python_try_def and_then_def pyodide_runPython_def setters)


lemma python_try_raises:
  assumes "pyodide w = Some vm"
    and "runPython P src (vm\<lparr>sys_stdout := StringIO []\<rparr>) = (PyRaises error, vm')"
  shows "python_try P src w =
     (PyRaises error,
      w\<lparr>pyodide := Some vm',
        journal := journal w @ [RunPython redirect_script, RunPython src]\<rparr>)"
  using assms
  by (simp add: python_try_def and_then_def pyodide_runPython_def setters)



lemma python_run_raises:
  assumes "language w = python" and "pyodide w = Some vm"
    and "runPython P (code w) (vm\<lparr>sys_stdout := StringIO []\<rparr>) = (PyRaises error, vm')"
    and "message_text error = Inr text"
  shows "handleRunCode E P w =
     (Finished,
      w\<lparr>pyodide := Some vm', output := ''Error: '' @ text,
        journal := journal w @
          [SetOutput [], RunPython redirect_script, RunPython (code w),
           SetOutput (''Error: '' @ text)]\<rparr>)"
proof -
  have "pyodide (setOutput [] w) = Some vm"
    using assms(2) by (simp add: setters)
  from python_try_raises [OF this assms(3)] show ?thesis
    using assms(1,2,4) by (simp add: handleRunCode_def run_python_def setters)
qed

text \<open>The branch for function bodies, case by case, when the body leaves
  \<^verbatim>\<open>console.log\<close> alone.\<close>

lemma javascript_run_returns:
  assumes "language w = javascript" and "completion (E (code w)) = Returns result"
    and "logs_only (actions (E (code w)))" and "shown_result result = Inr suffix"
  shows "handleRunCode E P w =
     (Finished,
      w\<lparr>arrays := arrays w @ [map log_line (logged (actions (E (code w))))],
        output := join ''\<newline>'' (map log_line (logged (actions (E (code w))))) @ suffix,
        journal := journal w @ [SetOutput [], NewFunction (code w),
           SetOutput (join ''\<newline>'' (map log_line (logged (actions (E (code w))))) @
                      suffix)]\<rparr>)"
  using assms by (simp add: handleRunCode_def run_javascript_returns setters)




text \<open>Once the handle is present the flag is clear, after every task.\<close>

lemma perform_settled_when_ready:
  assumes "settled_when_ready s"
  shows "settled_when_ready (perform s t)"
proof (cases t)
  case (ClickRun E P)
  obtain e w' where run: "handleRunCode E P (app s) = (e, w')"
    by (cases "handleRunCode E P (app s)")
  with handleRunCode_continues [of "app s" E P]
  have "isLoading w' = isLoading (app s)" "(pyodide w' = None) = (pyodide (app s) = None)"
    by (auto simp: continues_def setters)
  with ClickRun run assms show ?thesis
    by (cases e) (simp_all add: settled_when_ready_def)
next
  case (Settle r)
  with assms show ?thesis
    by (cases r)
      (simp_all add: settled_when_ready_def initPyodide_resume_def console_error_def setters)
qed (use assms in \<open>auto simp: settled_when_ready_def initPyodide_start_def
       handleLanguageChange_def setters\<close>)

lemma tasks_settled_when_ready:
  assumes "settled_when_ready s"
  shows "settled_when_ready (foldl perform s tasks)"
  using assms
proof (induction tasks arbitrary: s)
  case Nil
  then show ?case by simp
next
  case (Cons t tasks)
  from Cons.prems have "settled_when_ready (perform s t)"
    by (rule perform_settled_when_ready)
  then show ?case by (simp add: Cons.IH)
qed




text \<open>What the fragments make of the texts of the scenarios.\<close>

lemma js_fragment_hi_42:
  \<open>js_fragment ''console.log("hi"); 42'' =
     Some \<lparr>actions = [Log [Str ''hi'']], completion = Returns Undefined\<rparr>\<close>
  by code_simp

lemma js_fragment_hi_return_42:
  \<open>js_fragment ''console.log("hi"); return 42'' =
     Some \<lparr>actions = [Log [Str ''hi'']], completion = Returns (Number ''42'')\<rparr>\<close>
  by code_simp



subsection \<open>Properties of the handlers and of the session\<close>







text \<open>
  C3. With the Python language selected and no handle, a call of the handler sets the
  output to the waiting message and returns: the call makes the two setter calls
  \<^verbatim>\<open>setOutput("")\<close> and \<^verbatim>\<open>setOutput\<close> of the message, runs no source text and changes
  nothing else.
\<close>

theorem not_ready_message:
  assumes "language w = python" and "pyodide w = None"
  shows "handleRunCode E P w =
     (Finished,
      w\<lparr>output := ''Python runtime is not ready yet. Please wait...'',
        journal := journal w @
          [SetOutput [], SetOutput ''Python runtime is not ready yet. Please wait...'']\<rparr>)"
  using assms by (rule python_not_ready)

theorem not_ready_message_witness:
  \<open>handleRunCode (small_js no_js) (small_py no_py)
     (initial\<lparr>code := ''print("x")'', language := python\<rparr>) =
     (Finished,
      initial\<lparr>code := ''print("x")'', language := python,
        output := ''Python runtime is not ready yet. Please wait...'',
        journal :=
          [SetOutput [], SetOutput ''Python runtime is not ready yet. Please wait...'']\<rparr>)\<close>
proof -
  let ?w = \<open>initial\<lparr>code := ''print("x")'', language := python\<rparr>\<close>
  have 1: "language ?w = python" and 2: "pyodide ?w = None"
    by (simp_all add: initial_def)
  from not_ready_message [where E = "small_js no_js" and P = "small_py no_py", OF 1 2]
  show ?thesis
    by (simp add: initial_def)
qed

text \<open>
  C4. For the source text \<^verbatim>\<open>console.log("hi"); 42\<close> the output is \<^verbatim>\<open>hi\<close>: the body ends
  without \<^verbatim>\<open>return\<close>, so the call returns \<^verbatim>\<open>undefined\<close> and the value of the expression
  statement \<^verbatim>\<open>42\<close> is dropped. With \<^verbatim>\<open>console.log("hi"); return 42\<close> the output is
  \<^verbatim>\<open>hi\<close>, a line feed and \<^verbatim>\<open>=> 42\<close>.
\<close>

theorem trailing_expression_dropped:
  \<open>output (snd (handleRunCode (small_js E) P
      (w\<lparr>language := javascript, code := ''console.log("hi"); 42''\<rparr>))) = ''hi'' \<and>
   output (snd (handleRunCode (small_js E) P
      (w\<lparr>language := javascript, code := ''console.log("hi"); return 42''\<rparr>))) = ''hi\<newline>=> 42''\<close>
proof -
  let ?a = \<open>w\<lparr>language := javascript, code := ''console.log("hi"); 42''\<rparr>\<close>
  let ?b = \<open>w\<lparr>language := javascript, code := ''console.log("hi"); return 42''\<rparr>\<close>
  have t: \<open>log_line [Str ''hi''] = ''hi''\<close>
    by code_simp
  have \<open>language ?a = javascript\<close>
    \<open>completion (small_js E (code ?a)) = Returns Undefined\<close>
    \<open>logs_only (actions (small_js E (code ?a)))\<close>
    \<open>shown_result Undefined = Inr []\<close>
    by (simp_all add: small_js_def js_fragment_hi_42 shown_result_def)
  from javascript_run_returns [where E = "small_js E" and P = P and w = ?a, OF this]
  have a: \<open>output (snd (handleRunCode (small_js E) P ?a)) = ''hi''\<close>
    by (simp add: small_js_def js_fragment_hi_42 t)
  have \<open>language ?b = javascript\<close>
    \<open>completion (small_js E (code ?b)) = Returns (Number ''42'')\<close>
    \<open>logs_only (actions (small_js E (code ?b)))\<close>
    \<open>shown_result (Number ''42'') = Inr ''\<newline>=> 42''\<close>
    by (simp_all add: small_js_def js_fragment_hi_return_42 shown_result_def)
  from javascript_run_returns [where E = "small_js E" and P = P and w = ?b, OF this]
  have b: \<open>output (snd (handleRunCode (small_js E) P ?b)) = ''hi\<newline>=> 42''\<close>
    by (simp add: small_js_def js_fragment_hi_return_42 t)
  from a b show ?thesis by simp
qed

theorem trailing_expression_dropped_witness:
  \<open>output (snd (handleRunCode (small_js no_js) no_py
      (initial\<lparr>language := javascript, code := ''console.log("hi"); 42''\<rparr>))) = ''hi''\<close>
  using trailing_expression_dropped [of no_js no_py initial] by simp

text \<open>For \<^verbatim>\<open>console.log("hi"); 42\<close> the output is not \<^verbatim>\<open>hi\<close>, a line feed and
  \<^verbatim>\<open>=> 42\<close>.\<close>

theorem trailing_expression_counterexample:
  \<open>output (snd (handleRunCode (small_js no_js) no_py
      (initial\<lparr>code := ''console.log("hi"); 42''\<rparr>))) \<noteq> ''hi\<newline>=> 42''\<close>
  by code_simp

text \<open>
  C5. Whatever the language, the handle and the way the run ends (also when it does not
  end), the first thing a call of the handler does is \<^verbatim>\<open>setOutput("")\<close>: it is the
  first entry that the call adds to the journal, before every \<^verbatim>\<open>new Function\<close>, every
  \<^verbatim>\<open>runPython\<close> and every other setter call, and the output when the call has ended is
  the empty text unless a later \<^verbatim>\<open>setOutput\<close> of the same call has replaced it; it is
  never the output from before the call.
\<close>

theorem output_cleared_first:
  "output (setOutput [] w) = [] \<and>
   (\<exists>evs. journal (snd (handleRunCode E P w)) = journal w @ SetOutput [] # evs \<and>
          output (snd (handleRunCode E P w)) = shown [] evs)"
proof -
  from handleRunCode_continues [of w E P] obtain evs where
    "journal (snd (handleRunCode E P w)) = journal (setOutput [] w) @ evs \<and>
     output (snd (handleRunCode E P w)) = shown (output (setOutput [] w)) evs \<and>
     isLoading (snd (handleRunCode E P w)) = isLoading (setOutput [] w) \<and>
     (pyodide (snd (handleRunCode E P w)) = None) = (pyodide (setOutput [] w) = None)"
    unfolding continues_def ..
  then have "journal (snd (handleRunCode E P w)) = journal w @ SetOutput [] # evs \<and>
     output (snd (handleRunCode E P w)) = shown [] evs"
    by (simp add: setters)
  then show ?thesis
    by (auto simp: setters)
qed

theorem output_cleared_first_witness:
  \<open>output (setOutput [] (initial\<lparr>output := ''old''\<rparr>)) = [] \<and>
   (\<exists>evs. journal (snd (handleRunCode no_js no_py (initial\<lparr>output := ''old''\<rparr>)))
            = [] @ SetOutput [] # evs \<and>
          output (snd (handleRunCode no_js no_py (initial\<lparr>output := ''old''\<rparr>)))
            = shown [] evs)\<close>
  using output_cleared_first [of \<open>initial\<lparr>output := ''old''\<rparr>\<close> no_js no_py]
  by (simp add: initial_def)




text \<open>
  C7. A run in the Python branch with the handle present, in which \<^verbatim>\<open>runPython\<close> of the
  source text raises an error whose message can be read and converted: the output is
  \<^verbatim>\<open>Error: \<close> and the message, the call runs the redirecting script and the source text
  and neither reads the buffer nor runs the restoring script, and the instance is left
  as the failed program left it: \<^verbatim>\<open>sys.stdout\<close> is the buffer of line 74 unless the
  program itself has bound the name to something else.
\<close>

theorem python_error_skips_restore:
  assumes "language w = python" and "pyodide w = Some vm"
    and "runPython P (code w) (vm\<lparr>sys_stdout := StringIO []\<rparr>) = (PyRaises error, vm')"
    and "message_text error = Inr message"
  shows "fst (handleRunCode E P w) = Finished \<and>
         output (snd (handleRunCode E P w)) = ''Error: '' @ message \<and>
         journal (snd (handleRunCode E P w)) =
           journal w @ [SetOutput [], RunPython redirect_script, RunPython (code w),
                        SetOutput (''Error: '' @ message)] \<and>
         RunPython restore_script \<notin>
           set (drop (length (journal w)) (journal (snd (handleRunCode E P w)))) \<and>
         pyodide (snd (handleRunCode E P w)) = Some vm'"
proof -
  have differ: "code w \<noteq> restore_script"
    using assms(3) by auto
  from python_run_raises [where E = E and P = P and w = w, OF assms]
  have run: "handleRunCode E P w =
     (Finished,
      w\<lparr>pyodide := Some vm', output := ''Error: '' @ message,
        journal := journal w @
          [SetOutput [], RunPython redirect_script, RunPython (code w),
           SetOutput (''Error: '' @ message)]\<rparr>)" .
  have "redirect_script \<noteq> restore_script"
    by (simp add: redirect_script_def restore_script_def)
  with differ run show ?thesis
    by simp
qed

theorem python_error_skips_restore_witness:
  \<open>output (snd (handleRunCode no_js
      (writing_py ''1\<newline>'' (PyRaises (PythonError ''ZeroDivisionError: division by zero'')))
      (initial\<lparr>code := ''print(1)\<newline>1/0'', language := python, pyodide := Some vm0\<rparr>)))
     = ''Error: ZeroDivisionError: division by zero'' \<and>
   pyodide (snd (handleRunCode no_js
      (writing_py ''1\<newline>'' (PyRaises (PythonError ''ZeroDivisionError: division by zero'')))
      (initial\<lparr>code := ''print(1)\<newline>1/0'', language := python, pyodide := Some vm0\<rparr>)))
     = Some \<lparr>sys_stdout = StringIO ''1\<newline>'', terminal = []\<rparr>\<close>
proof -
  let ?zero = \<open>PythonError ''ZeroDivisionError: division by zero''\<close>
  let ?P = \<open>writing_py ''1\<newline>'' (PyRaises ?zero)\<close>
  let ?w = \<open>initial\<lparr>code := ''print(1)\<newline>1/0'', language := python, pyodide := Some vm0\<rparr>\<close>
  have 1: "language ?w = python" and 2: "pyodide ?w = Some vm0"
    by simp_all
  have 3: \<open>runPython ?P (code ?w) (vm0\<lparr>sys_stdout := StringIO []\<rparr>) =
        (PyRaises ?zero, \<lparr>sys_stdout = StringIO ''1\<newline>'', terminal = []\<rparr>)\<close>
    by code_simp
  have 4: \<open>message_text ?zero = Inr ''ZeroDivisionError: division by zero''\<close>
    by code_simp
  from python_error_skips_restore [where E = no_js and P = ?P and w = ?w, OF 1 2 3 4]
  show ?thesis
    by simp
qed

text \<open>
  A program that binds \<^verbatim>\<open>sys.stdout\<close> to the original stream and then divides by zero:
  the run raises, and \<^verbatim>\<open>sys.stdout\<close> is not the buffer when the handler has returned.
\<close>

theorem python_error_skips_restore_counterexample:
  \<open>fst (runPython
      (rebinding_py original_stdout
         (PyRaises (PythonError ''ZeroDivisionError: division by zero'')))
      ''sys.stdout = sys.__stdout__\<newline>1/0'' (vm0\<lparr>sys_stdout := StringIO []\<rparr>))
     = PyRaises (PythonError ''ZeroDivisionError: division by zero'') \<and>
   output (snd (handleRunCode no_js
      (rebinding_py original_stdout
         (PyRaises (PythonError ''ZeroDivisionError: division by zero'')))
      (initial\<lparr>code := ''sys.stdout = sys.__stdout__\<newline>1/0'', language := python,
               pyodide := Some vm0\<rparr>)))
     = ''Error: ZeroDivisionError: division by zero'' \<and>
   pyodide (snd (handleRunCode no_js
      (rebinding_py original_stdout
         (PyRaises (PythonError ''ZeroDivisionError: division by zero'')))
      (initial\<lparr>code := ''sys.stdout = sys.__stdout__\<newline>1/0'', language := python,
               pyodide := Some vm0\<rparr>)))
     = Some \<lparr>sys_stdout = original_stdout, terminal = []\<rparr>\<close>
  by code_simp

text \<open>
  C8. \<^verbatim>\<open>handleLanguageChange\<close> sets the language, sets the source text to the placeholder
  of the new language and the output to the empty text, and changes nothing else; in
  particular not the handle and not the loading flag.
\<close>

theorem language_change:
  "handleLanguageChange newLanguage w =
     w\<lparr>language := newLanguage,
       code := (case newLanguage of python \<Rightarrow> ''# Start coding here...''
                | javascript \<Rightarrow> ''// Start coding here...''),
       output := [],
       journal := journal w @
         [SetLanguage newLanguage,
          SetCode (case newLanguage of python \<Rightarrow> ''# Start coding here...''
                   | javascript \<Rightarrow> ''// Start coding here...''),
          SetOutput []]\<rparr> \<and>
   pyodide (handleLanguageChange newLanguage w) = pyodide w \<and>
   isLoading (handleLanguageChange newLanguage w) = isLoading w"
  by (cases newLanguage) (simp_all add: handleLanguageChange_def setters)

theorem language_change_witness:
  "code (handleLanguageChange python initial) = ''# Start coding here...'' \<and>
   output (handleLanguageChange python initial) = [] \<and>
   code (handleLanguageChange javascript (handleLanguageChange python initial))
     = ''// Start coding here...''"
  using language_change [of python initial]
    language_change [of javascript "handleLanguageChange python initial"]
  by simp

text \<open>
  C9. In every state of a session, whatever the tasks and the engines, the loading flag
  and the presence of the handle do not hold together: the flag is set while
  \<^verbatim>\<open>loadPyodide\<close> is awaited, when there is no handle, and the task that stores the
  handle clears the flag before it ends.
\<close>

theorem loading_or_ready_between_tasks:
  "\<not> (isLoading (app (after tasks)) \<and> pyodide (app (after tasks)) \<noteq> None)"
proof -
  have "settled_when_ready session0"
    by (simp add: settled_when_ready_def session0_def initial_def)
  then have "settled_when_ready (after tasks)"
    unfolding after_def by (rule tasks_settled_when_ready)
  then show ?thesis
    by (auto simp: settled_when_ready_def)
qed

theorem loading_or_ready_between_tasks_witness:
  \<open>isLoading (app (after [Mount])) \<and>
   pyodide (app (after [Mount])) = None \<and>
   \<not> isLoading (app (after
        [Mount, Edit ''print("x")'', Settle (Loaded vm0), ClickLanguage python,
         ClickRun (small_js no_js) (small_py no_py)])) \<and>
   pyodide (app (after
        [Mount, Edit ''print("x")'', Settle (Loaded vm0), ClickLanguage python,
         ClickRun (small_js no_js) (small_py no_py)])) \<noteq> None\<close>
proof -
  have 1: "isLoading (app (after [Mount]))"
    by code_simp
  have 2: \<open>pyodide (app (after
        [Mount, Edit ''print("x")'', Settle (Loaded vm0), ClickLanguage python,
         ClickRun (small_js no_js) (small_py no_py)])) \<noteq> None\<close>
    by code_simp
  from 1 2 loading_or_ready_between_tasks [of "[Mount]"]
    loading_or_ready_between_tasks
      [of \<open>[Mount, Edit ''print("x")'', Settle (Loaded vm0), ClickLanguage python,
            ClickRun (small_js no_js) (small_py no_py)]\<close>]
  show ?thesis by blast
qed




end
